theory Spec2Isabelle
  imports Main
begin

section \<open>Exceptions and effectful code\<close>

text \<open>
  The Python exceptions that the modelled code can meet. All of them are subclasses of
  \<^verbatim>\<open>Exception\<close>, so \<^verbatim>\<open>except Exception\<close> and a bare \<^verbatim>\<open>except\<close> catch each
  of them, while \<^verbatim>\<open>except KeyError\<close> catches only \<open>KeyError\<close>.
\<close>

datatype exn = IOError | OSError | ValueError | KeyError | TypeError

datatype 'a result = Return 'a | Raise exn

text \<open>
  A method is a function from the state before the call to its outcome and the state
  after it. A raised exception keeps the state reached so far: nothing that Python has
  already mutated (a file removed, a dictionary entry written) is rolled back.
\<close>

type_synonym ('s, 'a) prog = "'s \<Rightarrow> 'a result \<times> 's"

definition ret :: "'a \<Rightarrow> ('s, 'a) prog" where
  "ret a = (\<lambda>s. (Return a, s))"

definition raise :: "exn \<Rightarrow> ('s, 'a) prog" where
  "raise e = (\<lambda>s. (Raise e, s))"

definition then_do :: "('s, 'a) prog \<Rightarrow> ('a \<Rightarrow> ('s, 'b) prog) \<Rightarrow> ('s, 'b) prog" where
  "then_do m f = (\<lambda>s. case m s of (Return a, s') \<Rightarrow> f a s' | (Raise e, s') \<Rightarrow> (Raise e, s'))"

definition try_except :: "('s, 'a) prog \<Rightarrow> (exn \<Rightarrow> ('s, 'a) prog) \<Rightarrow> ('s, 'a) prog" where
  "try_except m h = (\<lambda>s. case m s of (Return a, s') \<Rightarrow> (Return a, s') | (Raise e, s') \<Rightarrow> h e s')"

section \<open>The link's persistent state (DSLink.py)\<close>

text \<open>
  The file system as the code sees it through \<^verbatim>\<open>os.path.exists\<close>, \<^verbatim>\<open>os.remove\<close>,
  \<^verbatim>\<open>os.rename\<close> and \<^verbatim>\<open>open\<close>: a path names nothing, a regular file with its
  content, or a directory. \<^verbatim>\<open>os.path.exists\<close> is true of a directory too, while
  \<^verbatim>\<open>os.remove\<close> and \<^verbatim>\<open>open\<close> fail on one.
\<close>

datatype entry = File string | Dir

type_synonym filesystem = "string \<rightharpoonup> entry"

datatype syscall =
    Remove string
  | Rename string string
  | OpenRead string
  | OpenWrite string
  | Write string string
  | Flush string
  | Fsync string
  | Close string

datatype level = DEBUG | INFO | WARNING | ERROR

datatype callback = SaveTimer

text \<open>
  The fields of a \<^verbatim>\<open>DSLink\<close> object that loading and saving touch, together with the
  world around it: the files, the system calls issued so far, the log, and the calls
  pending in the reactor (\<^verbatim>\<open>reactor.callLater\<close>). \<open>nodes_path\<close> is
  \<^verbatim>\<open>self.config.nodes_path\<close>. The tree type \<open>'t\<close> is the class \<^verbatim>\<open>Node\<close>, which
  lives in another module.
\<close>

record 't link =
  nodes_path :: string
  nodes_changed :: bool
  super_root :: 't
  files :: filesystem
  syscalls :: "syscall list"
  logged :: "(level \<times> string) list"
  delayed :: "(nat \<times> callback) list"

definition issue :: "syscall \<Rightarrow> 't link \<Rightarrow> 't link" where
  "issue c l = l\<lparr>syscalls := syscalls l @ [c]\<rparr>"

definition logger :: "level \<Rightarrow> string \<Rightarrow> ('t link, unit) prog" where
  "logger lv msg = (\<lambda>l. (Return (), l\<lparr>logged := logged l @ [(lv, msg)]\<rparr>))"

definition os_path_exists :: "string \<Rightarrow> 't link \<Rightarrow> bool" where
  "os_path_exists p l = (files l p \<noteq> None)"

definition os_remove :: "string \<Rightarrow> ('t link, unit) prog" where
  "os_remove p = (\<lambda>l. case files l p of
       Some (File c) \<Rightarrow> (Return (), issue (Remove p) (l\<lparr>files := (files l)(p := None)\<rparr>))
     | Some Dir \<Rightarrow> (Raise OSError, l)
     | None \<Rightarrow> (Raise OSError, l))"

definition os_rename :: "string \<Rightarrow> string \<Rightarrow> ('t link, unit) prog" where
  "os_rename src dst = (\<lambda>l. case files l src of
       None \<Rightarrow> (Raise OSError, l)
     | Some e \<Rightarrow>
         if files l dst = Some Dir \<or> (e = Dir \<and> files l dst \<noteq> None) then (Raise OSError, l)
         else (Return (), issue (Rename src dst) (l\<lparr>files := (files l)(src := None, dst \<mapsto> e)\<rparr>)))"

definition open_read :: "string \<Rightarrow> ('t link, string) prog" where
  "open_read p = (\<lambda>l. case files l p of
       Some (File c) \<Rightarrow> (Return c, issue (OpenRead p) l)
     | Some Dir \<Rightarrow> (Raise IOError, l)
     | None \<Rightarrow> (Raise IOError, l))"

definition open_write :: "string \<Rightarrow> ('t link, unit) prog" where
  "open_write p = (\<lambda>l. case files l p of
       Some Dir \<Rightarrow> (Raise IOError, l)
     | _ \<Rightarrow> (Return (), issue (OpenWrite p) (l\<lparr>files := (files l)(p \<mapsto> File [])\<rparr>)))"

text \<open>
  \<open>file_write\<close> appends to the file opened for writing. The data is shown in \<open>files\<close>
  at once; that Python buffers it until \<^verbatim>\<open>flush\<close> is visible only in the order of the
  system calls.
\<close>

definition file_write :: "string \<Rightarrow> string \<Rightarrow> ('t link, unit) prog" where
  "file_write p s = (\<lambda>l. case files l p of
       Some (File c) \<Rightarrow> (Return (), issue (Write p s) (l\<lparr>files := (files l)(p \<mapsto> File (c @ s))\<rparr>))
     | _ \<Rightarrow> (Raise IOError, l))"

definition file_flush :: "string \<Rightarrow> ('t link, unit) prog" where
  "file_flush p = (\<lambda>l. (Return (), issue (Flush p) l))"

definition os_fsync :: "string \<Rightarrow> ('t link, unit) prog" where
  "os_fsync p = (\<lambda>l. (Return (), issue (Fsync p) l))"

definition file_close :: "string \<Rightarrow> ('t link, unit) prog" where
  "file_close p = (\<lambda>l. (Return (), issue (Close p) l))"

subsection \<open>Loading\<close>

text \<open>
  \<^verbatim>\<open>get_root_node\<close> builds \<^verbatim>\<open>Node("", None)\<close>; \<open>mk\<close> is the constructor of
  \<^verbatim>\<open>Node\<close> (name and parent). \<^verbatim>\<open>get_default_nodes\<close> returns it.
\<close>

definition get_root_node :: "(string \<Rightarrow> 't option \<Rightarrow> 't) \<Rightarrow> 't" where
  "get_root_node mk = mk [] None"

definition get_default_nodes :: "(string \<Rightarrow> 't option \<Rightarrow> 't) \<Rightarrow> ('t link, 't) prog" where
  "get_default_nodes mk = ret (get_root_node mk)"

text \<open>
  \<open>json_load\<close> is \<^verbatim>\<open>json.load\<close> applied to the content of the opened file and
  \<open>from_json\<close> is \<^verbatim>\<open>Node.from_json(obj, None, "", link=self)\<close>; neither is part of
  this module, and either may raise. \<open>decode\<close> is what the two make of a file's content.
\<close>

definition decode :: "(string \<Rightarrow> 'j result) \<Rightarrow> ('j \<Rightarrow> 't result) \<Rightarrow> string \<Rightarrow> 't result" where
  "decode json_load from_json c =
     (case json_load c of Raise e \<Rightarrow> Raise e | Return obj \<Rightarrow> from_json obj)"

text \<open>
  The four statements that \<^verbatim>\<open>load_nodes\<close> runs in both of its \<^verbatim>\<open>try\<close> blocks:
  open the file for reading, \<^verbatim>\<open>json.load\<close> it, close it, and return the tree built
  by \<^verbatim>\<open>Node.from_json\<close>.
\<close>

definition read_nodes ::
  "(string \<Rightarrow> 'j result) \<Rightarrow> ('j \<Rightarrow> 't result) \<Rightarrow> string \<Rightarrow> ('t link, 't) prog" where
  "read_nodes json_load from_json p =
     then_do (open_read p) (\<lambda>c.
       case json_load c of
         Raise e \<Rightarrow> raise e
       | Return obj \<Rightarrow>
           then_do (file_close p) (\<lambda>_.
             case from_json obj of
               Raise e \<Rightarrow> raise e
             | Return t \<Rightarrow> ret t))"

text \<open>
  \<^verbatim>\<open>print(e)\<close> in the first handler writes to standard output only and is left out.
\<close>

definition load_nodes ::
  "(string \<Rightarrow> 'j result) \<Rightarrow> ('j \<Rightarrow> 't result) \<Rightarrow> (string \<Rightarrow> 't option \<Rightarrow> 't) \<Rightarrow> ('t link, 't) prog" where
  "load_nodes json_load from_json mk = (\<lambda>l.
     if os_path_exists (nodes_path l) l then
       try_except (read_nodes json_load from_json (nodes_path l))
         (\<lambda>e. then_do (logger ERROR ''Unable to load nodes data'') (\<lambda>_. (\<lambda>l1.
            if os_path_exists (nodes_path l1 @ ''.bak'') l1 then
              try_except
                (then_do (logger WARNING ''Restoring backup nodes'') (\<lambda>_.
                 then_do (os_remove (nodes_path l1)) (\<lambda>_.
                 then_do (os_rename (nodes_path l1 @ ''.bak'') (nodes_path l1)) (\<lambda>_.
                 read_nodes json_load from_json (nodes_path l1)))))
                (\<lambda>e'. then_do (logger ERROR ''Unable to restore nodes, using default'') (\<lambda>_.
                   get_default_nodes mk)) l1
            else
              then_do (logger WARNING ''Backup nodes data doesn't exist, using default'') (\<lambda>_.
                get_default_nodes mk) l1))) l
     else get_default_nodes mk l)"

subsection \<open>Saving\<close>

text \<open>
  \<open>dumps\<close> stands for \<^verbatim>\<open>json.dumps(self.super_root.to_json(), sort_keys=True, indent=2)\<close>;
  it is evaluated after the file has been opened (and so truncated) and may raise.
\<close>

definition save_nodes :: "('t \<Rightarrow> string result) \<Rightarrow> ('t link, unit) prog" where
  "save_nodes dumps = (\<lambda>l.
     if nodes_changed l then
       then_do (\<lambda>l1. if os_path_exists (nodes_path l1 @ ''.bak'') l1
                      then os_remove (nodes_path l1 @ ''.bak'') l1 else ret () l1) (\<lambda>_.
       then_do (\<lambda>l2. if os_path_exists (nodes_path l2) l2
                      then os_rename (nodes_path l2) (nodes_path l2 @ ''.bak'') l2 else ret () l2) (\<lambda>_.
       then_do (\<lambda>l3. open_write (nodes_path l3) l3) (\<lambda>_.
       then_do (\<lambda>l4. case dumps (super_root l4) of
                        Raise e \<Rightarrow> raise e l4
                      | Return s \<Rightarrow> file_write (nodes_path l4) s l4) (\<lambda>_.
       then_do (\<lambda>l5. file_flush (nodes_path l5) l5) (\<lambda>_.
       then_do (\<lambda>l6. os_fsync (nodes_path l6) l6) (\<lambda>_.
       then_do (\<lambda>l7. file_close (nodes_path l7) l7) (\<lambda>_.
       (\<lambda>l8. (Return (), l8\<lparr>nodes_changed := False\<rparr>))))))))) l
     else (Return (), l))"

definition callLater :: "nat \<Rightarrow> callback \<Rightarrow> ('t link, unit) prog" where
  "callLater secs cb = (\<lambda>l. (Return (), l\<lparr>delayed := delayed l @ [(secs, cb)]\<rparr>))"

definition save_timer :: "('t \<Rightarrow> string result) \<Rightarrow> ('t link, unit) prog" where
  "save_timer dumps = then_do (save_nodes dumps) (\<lambda>_. callLater 5 SaveTimer)"

text \<open>
  The reactor (Twisted, not part of the repository) takes the first pending call off its
  queue and runs it; an exception that escapes the call is logged by the reactor and the
  reactor goes on.
\<close>

definition reactor_fire :: "('t \<Rightarrow> string result) \<Rightarrow> 't link \<Rightarrow> 't link" where
  "reactor_fire dumps l =
     (case delayed l of
        [] \<Rightarrow> l
      | (secs, SaveTimer) # rest \<Rightarrow>
          (case save_timer dumps (l\<lparr>delayed := rest\<rparr>) of
             (Return _, l') \<Rightarrow> l'
           | (Raise e, l') \<Rightarrow> l'\<lparr>logged := logged l' @ [(ERROR, ''Unhandled Error'')]\<rparr>))"

section \<open>Subscription and stream bookkeeping (DSLink.py)\<close>

text \<open>
  Nodes are objects shared between the tree and the two managers, so they live in a heap
  addressed by reference; a manager's dictionary maps an id to a reference. Of a node
  only the two fields the managers touch are kept. \<open>node_streams\<close> is the attribute
  \<^verbatim>\<open>Node.streams\<close>, a list that the stream manager appends to and removes from
  directly.
\<close>

type_synonym ref = nat

record node =
  subscribers :: "nat set"
  node_streams :: "nat list"

datatype message =
    Unknown_sid nat
  | Unknown_rid nat
  | Failed_to_connect nat
  | Exception_during_connect string
  | Connected

text \<open>
  \<open>subscriptions\<close> is \<^verbatim>\<open>LocalSubscriptionManager.subscriptions\<close>, \<open>streams\<close> is
  \<^verbatim>\<open>StreamManager.streams\<close>; \<open>debug_log\<close> collects the calls of
  \<^verbatim>\<open>logging.getLogger(name).debug\<close> with the logger's name.
\<close>

record managers =
  subscriptions :: "nat \<rightharpoonup> ref"
  streams :: "nat \<rightharpoonup> ref"
  heap :: "ref \<Rightarrow> node"
  debug_log :: "(string \<times> message) list"

text \<open>
  Modelled from the spec: \<^verbatim>\<open>Node.add_subscriber\<close> and \<^verbatim>\<open>Node.remove_subscriber\<close>
  are methods of the class \<^verbatim>\<open>Node\<close> in \<^verbatim>\<open>dslink/Node.py\<close>. The spec gives a node a
  set of subscription identifiers, has \<open>open\<close> register the id on that set and \<open>close\<close>
  deregister it.
\<close>

definition add_subscriber :: "ref \<Rightarrow> nat \<Rightarrow> (managers, unit) prog" where
  "add_subscriber n sid = (\<lambda>w.
     (Return (), w\<lparr>heap := (heap w)(n := (heap w n)\<lparr>subscribers := insert sid (subscribers (heap w n))\<rparr>)\<rparr>))"

definition remove_subscriber :: "ref \<Rightarrow> nat \<Rightarrow> (managers, unit) prog" where
  "remove_subscriber n sid = (\<lambda>w.
     (Return (), w\<lparr>heap := (heap w)(n := (heap w n)\<lparr>subscribers := subscribers (heap w n) - {sid}\<rparr>)\<rparr>))"

text \<open>Python's list methods on \<^verbatim>\<open>node.streams\<close>: \<^verbatim>\<open>remove\<close> deletes the first
  occurrence and raises \<open>ValueError\<close> when there is none.\<close>

definition streams_append :: "ref \<Rightarrow> nat \<Rightarrow> (managers, unit) prog" where
  "streams_append n rid = (\<lambda>w.
     (Return (), w\<lparr>heap := (heap w)(n := (heap w n)\<lparr>node_streams := node_streams (heap w n) @ [rid]\<rparr>)\<rparr>))"

definition streams_remove :: "ref \<Rightarrow> nat \<Rightarrow> (managers, unit) prog" where
  "streams_remove n rid = (\<lambda>w.
     if rid \<in> set (node_streams (heap w n))
     then (Return (), w\<lparr>heap := (heap w)(n := (heap w n)\<lparr>node_streams := remove1 rid (node_streams (heap w n))\<rparr>)\<rparr>)
     else (Raise ValueError, w))"

text \<open>Dictionary access: \<^verbatim>\<open>d[k]\<close> and \<^verbatim>\<open>del d[k]\<close> raise \<open>KeyError\<close> on a missing key.\<close>

definition subscriptions_get :: "nat \<Rightarrow> (managers, ref) prog" where
  "subscriptions_get sid = (\<lambda>w. case subscriptions w sid of
       None \<Rightarrow> (Raise KeyError, w) | Some n \<Rightarrow> (Return n, w))"

definition subscriptions_del :: "nat \<Rightarrow> (managers, unit) prog" where
  "subscriptions_del sid = (\<lambda>w. case subscriptions w sid of
       None \<Rightarrow> (Raise KeyError, w)
     | Some n \<Rightarrow> (Return (), w\<lparr>subscriptions := (subscriptions w)(sid := None)\<rparr>))"

definition streams_get :: "nat \<Rightarrow> (managers, ref) prog" where
  "streams_get rid = (\<lambda>w. case streams w rid of
       None \<Rightarrow> (Raise KeyError, w) | Some n \<Rightarrow> (Return n, w))"

definition streams_del :: "nat \<Rightarrow> (managers, unit) prog" where
  "streams_del rid = (\<lambda>w. case streams w rid of
       None \<Rightarrow> (Raise KeyError, w)
     | Some n \<Rightarrow> (Return (), w\<lparr>streams := (streams w)(rid := None)\<rparr>))"

definition debug :: "string \<Rightarrow> message \<Rightarrow> (managers, unit) prog" where
  "debug name msg = (\<lambda>w. (Return (), w\<lparr>debug_log := debug_log w @ [(name, msg)]\<rparr>))"

definition subscribe :: "ref \<Rightarrow> nat \<Rightarrow> (managers, unit) prog" where
  "subscribe node sid =
     then_do (\<lambda>w. (Return (), w\<lparr>subscriptions := (subscriptions w)(sid \<mapsto> node)\<rparr>)) (\<lambda>_.
     then_do (subscriptions_get sid) (\<lambda>n. add_subscriber n sid))"

definition unsubscribe :: "nat \<Rightarrow> (managers, unit) prog" where
  "unsubscribe sid =
     try_except
       (then_do (subscriptions_get sid) (\<lambda>n.
        then_do (remove_subscriber n sid) (\<lambda>_.
        subscriptions_del sid)))
       (\<lambda>e. if e = KeyError then debug ''DSlink'' (Unknown_sid sid) else raise e)"

definition open_stream :: "ref \<Rightarrow> nat \<Rightarrow> (managers, unit) prog" where
  "open_stream node rid =
     then_do (\<lambda>w. (Return (), w\<lparr>streams := (streams w)(rid \<mapsto> node)\<rparr>)) (\<lambda>_.
     then_do (streams_get rid) (\<lambda>n. streams_append n rid))"

definition close_stream :: "nat \<Rightarrow> (managers, unit) prog" where
  "close_stream rid =
     try_except
       (then_do (streams_get rid) (\<lambda>n.
        then_do (streams_remove n rid) (\<lambda>_.
        streams_del rid)))
       (\<lambda>e. if e = KeyError then debug ''DSLink'' (Unknown_rid rid) else raise e)"

text \<open>Every id on a node's subscriber set is a key of the subscription dictionary.\<close>

definition subscribers_registered :: "managers \<Rightarrow> bool" where
  "subscribers_registered w = (\<forall>n. \<forall>s \<in> subscribers (heap w n). s \<in> dom (subscriptions w))"

section \<open>The connection loop (Connection.py)\<close>

text \<open>
  What one pass through the body of the \<^verbatim>\<open>while True\<close> loop of \<^verbatim>\<open>connect\<close> meets:
  the handshake returns false or raises, or it succeeds and the transport's
  \<^verbatim>\<open>connect\<close> returns false or raises, or both succeed. The string is \<^verbatim>\<open>str(e)\<close>.
\<close>

datatype attempt =
    Handshake_False
  | Handshake_Raises string
  | Transport_False
  | Transport_Raises string
  | Connects

datatype event = Log level message | Sleep nat | Create_ping_task

record connection =
  delay :: nat
  events :: "event list"

definition emit :: "event \<Rightarrow> connection \<Rightarrow> connection" where
  "emit ev c = c\<lparr>events := events c @ [ev]\<rparr>"

text \<open>The statements after the \<^verbatim>\<open>if hs_res\<close> block, reached when no \<^verbatim>\<open>break\<close> was taken.\<close>

definition warn_and_sleep :: "connection \<Rightarrow> connection" where
  "warn_and_sleep c = emit (Sleep (delay c)) (emit (Log WARNING (Failed_to_connect (delay c))) c)"

text \<open>
  The loop runs for as long as attempts fail, so it is driven by the list of what the
  attempts to come will meet. It leaves the loop (\<open>True\<close>) at the first attempt that
  connects; a list that ends before that leaves the loop still running (\<open>False\<close>).
\<close>

fun connect_loop :: "attempt list \<Rightarrow> connection \<Rightarrow> bool \<times> connection" where
  "connect_loop [] c = (False, c)"
| "connect_loop (a # rest) c =
     (let c1 = (if delay c < 60 then c\<lparr>delay := delay c + 1\<rparr> else c) in
      case a of
        Handshake_False \<Rightarrow> connect_loop rest (warn_and_sleep c1)
      | Handshake_Raises msg \<Rightarrow> connect_loop rest (emit (Log ERROR (Exception_during_connect msg)) c1)
      | Transport_False \<Rightarrow> connect_loop rest (warn_and_sleep c1)
      | Transport_Raises msg \<Rightarrow> connect_loop rest (emit (Log ERROR (Exception_during_connect msg)) c1)
      | Connects \<Rightarrow> (True, emit Create_ping_task c1))"

definition connect :: "attempt list \<Rightarrow> connection \<Rightarrow> connection option" where
  "connect script c =
     (case connect_loop script c of
        (True, c') \<Rightarrow> Some ((emit (Log INFO Connected) c')\<lparr>delay := 0\<rparr>)
      | (False, c') \<Rightarrow> None)"

text \<open>The delays slept so far, in order.\<close>

fun sleeps :: "event list \<Rightarrow> nat list" where
  "sleeps [] = []"
| "sleeps (Sleep n # es) = n # sleeps es"
| "sleeps (_ # es) = sleeps es"

fun failed :: "attempt \<Rightarrow> bool" where
  "failed Connects = False"
| "failed _ = True"

fun raises :: "attempt \<Rightarrow> bool" where
  "raises (Handshake_Raises _) = True"
| "raises (Transport_Raises _) = True"
| "raises _ = False"

section \<open>Initial states\<close>

text \<open>
  The two managers as their constructors leave them (both dictionaries empty), over a
  heap of nodes none of which has a subscriber or a stream; and the connection as
  \<^verbatim>\<open>Connection.__init__\<close> leaves it.
\<close>

definition new_managers :: managers where
  "new_managers =
     \<lparr>subscriptions = Map.empty, streams = Map.empty,
      heap = (\<lambda>n. \<lparr>subscribers = {}, node_streams = []\<rparr>), debug_log = []\<rparr>"

definition new_connection :: connection where
  "new_connection = \<lparr>delay = 0, events = []\<rparr>"

section \<open>A concrete instance\<close>

text \<open>
  A small instance on which the theorems below are exercised: the tree is a number, a
  file's content decodes to its length (an empty file is not valid JSON), a tree is
  written as that many characters, and the default root is \<open>0\<close>.
\<close>

definition ex_json_load :: "string \<Rightarrow> nat result" where
  "ex_json_load c = (if c = [] then Raise ValueError else Return (length c))"

definition ex_from_json :: "nat \<Rightarrow> nat result" where
  "ex_from_json n = Return n"

definition ex_mk :: "string \<Rightarrow> nat option \<Rightarrow> nat" where
  "ex_mk name parent = 0"

definition ex_dumps :: "nat \<Rightarrow> string result" where
  "ex_dumps t = Return (replicate t (CHR ''x''))"

definition ex_link :: "bool \<Rightarrow> nat \<Rightarrow> filesystem \<Rightarrow> nat link" where
  "ex_link dirty t fs =
     \<lparr>nodes_path = ''n'', nodes_changed = dirty, super_root = t, files = fs,
      syscalls = [], logged = [], delayed = []\<rparr>"

fun is_write :: "syscall \<Rightarrow> bool" where
  "is_write (Write p s) = True"
| "is_write _ = False"

section \<open>Loading: the fallback chain\<close>

lemmas prog_defs = then_do_def try_except_def ret_def raise_def

lemmas io_defs = logger_def os_path_exists_def os_remove_def os_rename_def open_read_def
  open_write_def file_write_def file_flush_def os_fsync_def file_close_def issue_def

lemmas load_defs = load_nodes_def read_nodes_def get_default_nodes_def decode_def

lemma load_nodes_returns: "\<exists>t l'. load_nodes jl fj mk l = (Return t, l')"
  by (auto simp: load_defs prog_defs io_defs
      split: option.splits entry.splits result.splits prod.splits)

lemma load_nodes_no_primary:
  "files l (nodes_path l) = None \<Longrightarrow> load_nodes jl fj mk l = (Return (get_root_node mk), l)"
  by (simp add: load_defs prog_defs io_defs)

lemma load_nodes_primary_ok:
  assumes "files l (nodes_path l) = Some (File c)" and "decode jl fj c = Return t"
  shows "fst (load_nodes jl fj mk l) = Return t"
    and "files (snd (load_nodes jl fj mk l)) = files l"
  using assms by (auto simp add: load_defs prog_defs io_defs split: result.splits)

lemma load_nodes_restore:
  assumes "files l (nodes_path l) = Some (File c)" and "decode jl fj c = Raise e"
    and "files l (nodes_path l @ ''.bak'') = Some (File k)"
  shows "files (snd (load_nodes jl fj mk l)) =
           (files l)(nodes_path l @ ''.bak'' := None, nodes_path l \<mapsto> File k)"
    and "removeAll (Close (nodes_path l)) (syscalls (snd (load_nodes jl fj mk l))) =
           removeAll (Close (nodes_path l)) (syscalls l) @
           [OpenRead (nodes_path l), Remove (nodes_path l),
            Rename (nodes_path l @ ''.bak'') (nodes_path l), OpenRead (nodes_path l)]"
    and "fst (load_nodes jl fj mk l) =
           (case decode jl fj k of
              Return t' \<Rightarrow> Return t'
            | Raise e' \<Rightarrow> Return (get_root_node mk))"
  using assms
  by (auto simp add: load_defs prog_defs io_defs fun_eq_iff split: result.splits)

lemma load_nodes_no_backup:
  assumes "files l (nodes_path l) = Some (File c)" and "decode jl fj c = Raise e"
    and "files l (nodes_path l @ ''.bak'') = None"
  shows "fst (load_nodes jl fj mk l) = Return (get_root_node mk)"
    and "files (snd (load_nodes jl fj mk l)) = files l"
  using assms by (auto simp add: load_defs prog_defs io_defs split: result.splits)

text \<open>
  C1. \<^verbatim>\<open>load_nodes\<close> never raises: for every state of the link and of the files, and
  whatever the decoder does, it returns a tree. Without a primary file it returns the
  default tree and changes nothing. With a primary file that decodes it returns the
  decoded tree and leaves the files as they are. With a primary file that fails to decode
  and a backup file, the primary is removed, the backup renamed onto it and the file read
  once more (in this order), and the result is the backup's tree when that decodes and
  the default tree when it does not. With a primary file that fails to decode and no
  backup it returns the default tree.
\<close>

theorem load_nodes_fallback_chain:
  "(\<exists>t l'. load_nodes jl fj mk l = (Return t, l')) \<and>
   (files l (nodes_path l) = None \<longrightarrow>
      load_nodes jl fj mk l = (Return (get_root_node mk), l)) \<and>
   (files l (nodes_path l) = Some (File c) \<and> decode jl fj c = Return t \<longrightarrow>
      fst (load_nodes jl fj mk l) = Return t \<and>
      files (snd (load_nodes jl fj mk l)) = files l) \<and>
   (files l (nodes_path l) = Some (File c) \<and> decode jl fj c = Raise e \<and>
    files l (nodes_path l @ ''.bak'') = Some (File k) \<longrightarrow>
      files (snd (load_nodes jl fj mk l)) =
        (files l)(nodes_path l @ ''.bak'' := None, nodes_path l \<mapsto> File k) \<and>
      removeAll (Close (nodes_path l)) (syscalls (snd (load_nodes jl fj mk l))) =
        removeAll (Close (nodes_path l)) (syscalls l) @
        [OpenRead (nodes_path l), Remove (nodes_path l),
         Rename (nodes_path l @ ''.bak'') (nodes_path l), OpenRead (nodes_path l)] \<and>
      fst (load_nodes jl fj mk l) =
        (case decode jl fj k of
           Return t' \<Rightarrow> Return t'
         | Raise e' \<Rightarrow> Return (get_root_node mk))) \<and>
   (files l (nodes_path l) = Some (File c) \<and> decode jl fj c = Raise e \<and>
    files l (nodes_path l @ ''.bak'') = None \<longrightarrow>
      fst (load_nodes jl fj mk l) = Return (get_root_node mk) \<and>
      files (snd (load_nodes jl fj mk l)) = files l)"
  using load_nodes_returns [of jl fj mk l] load_nodes_no_primary [of l jl fj mk]
    load_nodes_primary_ok [of l c jl fj t mk] load_nodes_restore [of l c jl fj e k mk]
    load_nodes_no_backup [of l c jl fj e mk]
  by blast

theorem load_nodes_fallback_chain_witness:
  "fst (load_nodes ex_json_load ex_from_json ex_mk (ex_link False 0 Map.empty)) = Return 0 \<and>
   fst (load_nodes ex_json_load ex_from_json ex_mk
          (ex_link False 0 [''n'' \<mapsto> File ''ab''])) = Return 2 \<and>
   fst (load_nodes ex_json_load ex_from_json ex_mk
          (ex_link False 0 [''n'' \<mapsto> File [], ''n.bak'' \<mapsto> File ''abc''])) = Return 3 \<and>
   files (snd (load_nodes ex_json_load ex_from_json ex_mk
          (ex_link False 0 [''n'' \<mapsto> File [], ''n.bak'' \<mapsto> File ''abc'']))) =
     [''n'' \<mapsto> File ''abc''] \<and>
   fst (load_nodes ex_json_load ex_from_json ex_mk
          (ex_link False 0 [''n'' \<mapsto> File []])) = Return 0"
proof -
  note T = load_nodes_fallback_chain [where jl = ex_json_load and fj = ex_from_json and mk = ex_mk]
  have a: "fst (load_nodes ex_json_load ex_from_json ex_mk (ex_link False 0 Map.empty)) = Return 0"
    using T [where l = "ex_link False 0 Map.empty"]
    by (simp add: ex_link_def get_root_node_def ex_mk_def)
  have b: "fst (load_nodes ex_json_load ex_from_json ex_mk
             (ex_link False 0 [''n'' \<mapsto> File ''ab''])) = Return 2"
    using T [where l = "ex_link False 0 [''n'' \<mapsto> File ''ab'']" and c = "''ab''" and t = 2]
    by (simp add: ex_link_def decode_def ex_json_load_def ex_from_json_def)
  have c: "fst (load_nodes ex_json_load ex_from_json ex_mk
             (ex_link False 0 [''n'' \<mapsto> File [], ''n.bak'' \<mapsto> File ''abc''])) = Return 3 \<and>
     files (snd (load_nodes ex_json_load ex_from_json ex_mk
             (ex_link False 0 [''n'' \<mapsto> File [], ''n.bak'' \<mapsto> File ''abc'']))) =
       [''n'' \<mapsto> File ''abc'']"
    using T [where l = "ex_link False 0 [''n'' \<mapsto> File [], ''n.bak'' \<mapsto> File ''abc'']"
               and c = "[]" and e = ValueError and k = "''abc''"]
    by (simp add: ex_link_def decode_def ex_json_load_def ex_from_json_def fun_eq_iff)
  have d: "fst (load_nodes ex_json_load ex_from_json ex_mk
             (ex_link False 0 [''n'' \<mapsto> File []])) = Return 0"
    using T [where l = "ex_link False 0 [''n'' \<mapsto> File []]" and c = "[]" and e = ValueError]
    by (simp add: ex_link_def decode_def ex_json_load_def get_root_node_def ex_mk_def)
  from a b c d show ?thesis by simp
qed

text \<open>
  C10. When the primary file fails to decode and a backup file exists, \<^verbatim>\<open>load_nodes\<close>
  removes the primary and renames the backup onto it before it reads the backup's
  content. If that content fails to decode as well, the default tree is returned and the
  files are not as they were: the primary path holds the former backup's content, the
  backup path holds nothing, and the former primary content is stored nowhere.
\<close>

theorem load_nodes_failed_recovery_changes_files:
  assumes "files l (nodes_path l) = Some (File c)" and "decode jl fj c = Raise e"
    and "files l (nodes_path l @ ''.bak'') = Some (File k)" and "decode jl fj k = Raise e'"
  shows "fst (load_nodes jl fj mk l) = Return (get_root_node mk) \<and>
         files (snd (load_nodes jl fj mk l)) (nodes_path l) = Some (File k) \<and>
         files (snd (load_nodes jl fj mk l)) (nodes_path l @ ''.bak'') = None \<and>
         files (snd (load_nodes jl fj mk l)) =
           (files l)(nodes_path l @ ''.bak'' := None, nodes_path l \<mapsto> File k) \<and>
         files (snd (load_nodes jl fj mk l)) \<noteq> files l \<and>
         removeAll (Close (nodes_path l)) (syscalls (snd (load_nodes jl fj mk l))) =
           removeAll (Close (nodes_path l)) (syscalls l) @
           [OpenRead (nodes_path l), Remove (nodes_path l),
            Rename (nodes_path l @ ''.bak'') (nodes_path l), OpenRead (nodes_path l)]"
proof -
  note R = load_nodes_restore [OF assms(1-3), of mk]
  have n: "files (snd (load_nodes jl fj mk l)) \<noteq> files l"
  proof
    assume "files (snd (load_nodes jl fj mk l)) = files l"
    then have "files (snd (load_nodes jl fj mk l)) (nodes_path l @ ''.bak'') =
               files l (nodes_path l @ ''.bak'')"
      by simp
    with R(1) assms(3) show False by simp
  qed
  from R assms(4) n show ?thesis by simp
qed

theorem load_nodes_failed_recovery_changes_files_witness:
  "fst (load_nodes ex_json_load (\<lambda>n. if n < 3 then Raise KeyError else Return n) ex_mk
          (ex_link False 0 [''n'' \<mapsto> File [], ''n.bak'' \<mapsto> File ''ab''])) = Return 0 \<and>
   files (snd (load_nodes ex_json_load (\<lambda>n. if n < 3 then Raise KeyError else Return n) ex_mk
          (ex_link False 0 [''n'' \<mapsto> File [], ''n.bak'' \<mapsto> File ''ab'']))) =
     [''n'' \<mapsto> File ''ab'']"
  using load_nodes_failed_recovery_changes_files
    [where l = "ex_link False 0 [''n'' \<mapsto> File [], ''n.bak'' \<mapsto> File ''ab'']"
       and jl = ex_json_load and fj = "\<lambda>n. if n < 3 then Raise KeyError else Return n"
       and mk = ex_mk and c = "[]" and e = ValueError and k = "''ab''" and e' = KeyError]
  by (simp add: ex_link_def decode_def ex_json_load_def get_root_node_def ex_mk_def fun_eq_iff)

section \<open>Saving: rotation and the dirty flag\<close>

lemma save_nodes_clean: "\<not> nodes_changed l \<Longrightarrow> save_nodes dumps l = (Return (), l)"
  by (simp add: save_nodes_def)

text \<open>
  A save of a changed tree returns exactly when the backup path is not a directory and
  the tree can be serialized; the state it returns is then determined field by field.
\<close>

lemma save_nodes_returns_iff:
  assumes "nodes_changed l"
  shows "(\<exists>l1. save_nodes dumps l = (Return (), l1)) \<longleftrightarrow>
         files l (nodes_path l @ ''.bak'') \<noteq> Some Dir \<and> (\<exists>s. dumps (super_root l) = Return s)"
  using assms
  by (auto simp add: save_nodes_def prog_defs io_defs
      split: result.splits option.splits entry.splits if_splits)

lemma save_nodes_dirty:
  assumes "nodes_changed l" and "files l (nodes_path l @ ''.bak'') \<noteq> Some Dir"
    and "dumps (super_root l) = Return s"
  shows "fst (save_nodes dumps l) = Return ()"
    and "files (snd (save_nodes dumps l)) =
           (files l)(nodes_path l @ ''.bak'' := files l (nodes_path l), nodes_path l \<mapsto> File s)"
    and "syscalls (snd (save_nodes dumps l)) = syscalls l
           @ (if files l (nodes_path l @ ''.bak'') = None then []
              else [Remove (nodes_path l @ ''.bak'')])
           @ (if files l (nodes_path l) = None then []
              else [Rename (nodes_path l) (nodes_path l @ ''.bak'')])
           @ [OpenWrite (nodes_path l), Write (nodes_path l) s, Flush (nodes_path l),
              Fsync (nodes_path l), Close (nodes_path l)]"
    and "\<not> nodes_changed (snd (save_nodes dumps l))"
    and "nodes_path (snd (save_nodes dumps l)) = nodes_path l"
    and "super_root (snd (save_nodes dumps l)) = super_root l"
    and "logged (snd (save_nodes dumps l)) = logged l"
    and "delayed (snd (save_nodes dumps l)) = delayed l"
  using assms
  by (auto simp add: save_nodes_def prog_defs io_defs fun_eq_iff
      split: result.splits option.splits entry.splits if_splits)

lemma save_nodes_ok:
  assumes "nodes_changed l" "save_nodes dumps l = (Return (), l')"
  shows "\<exists>s. dumps (super_root l) = Return s \<and>
     files l' = (files l)(nodes_path l @ ''.bak'' := files l (nodes_path l), nodes_path l \<mapsto> File s) \<and>
     syscalls l' = syscalls l
               @ (if files l (nodes_path l @ ''.bak'') = None then [] else [Remove (nodes_path l @ ''.bak'')])
               @ (if files l (nodes_path l) = None then [] else [Rename (nodes_path l) (nodes_path l @ ''.bak'')])
               @ [OpenWrite (nodes_path l), Write (nodes_path l) s, Flush (nodes_path l), Fsync (nodes_path l), Close (nodes_path l)] \<and>
     \<not> nodes_changed l' \<and> nodes_path l' = nodes_path l \<and> super_root l' = super_root l \<and> delayed l' = delayed l \<and> logged l' = logged l"
  using assms
  by (auto simp add: save_nodes_def prog_defs io_defs fun_eq_iff
     split: result.splits option.splits entry.splits if_splits)



text \<open>
  C5. With the flag clear \<^verbatim>\<open>save_nodes\<close> returns the state unchanged. With the flag
  set (the backup path not a directory, the tree serializing to \<open>s\<close>) the first call
  returns, has written \<open>s\<close> to the primary file with exactly one write, and has cleared
  the flag; a second call with nothing changed in between returns the very same state,
  so it removes, renames and writes nothing: the files and the system calls are those
  left by the first call, and the two calls together have written exactly once.
\<close>

theorem save_nodes_twice_writes_once:
  "(\<not> nodes_changed l \<longrightarrow> save_nodes dumps l = (Return (), l)) \<and>
   (nodes_changed l \<and> files l (nodes_path l @ ''.bak'') \<noteq> Some Dir \<and>
    dumps (super_root l) = Return s \<longrightarrow>
      fst (save_nodes dumps l) = Return () \<and>
      files (snd (save_nodes dumps l)) (nodes_path l) = Some (File s) \<and>
      filter is_write (syscalls (snd (save_nodes dumps l))) =
        filter is_write (syscalls l) @ [Write (nodes_path l) s] \<and>
      \<not> nodes_changed (snd (save_nodes dumps l)) \<and>
      save_nodes dumps (snd (save_nodes dumps l)) = (Return (), snd (save_nodes dumps l)) \<and>
      files (snd (save_nodes dumps (snd (save_nodes dumps l)))) =
        (files l)(nodes_path l @ ''.bak'' := files l (nodes_path l), nodes_path l \<mapsto> File s) \<and>
      syscalls (snd (save_nodes dumps (snd (save_nodes dumps l)))) =
        syscalls (snd (save_nodes dumps l)) \<and>
      filter is_write (syscalls (snd (save_nodes dumps (snd (save_nodes dumps l))))) =
        filter is_write (syscalls l) @ [Write (nodes_path l) s])"
proof (intro conjI impI)
  assume "\<not> nodes_changed l"
  then show "save_nodes dumps l = (Return (), l)" by (rule save_nodes_clean)
next
  assume h: "nodes_changed l \<and> files l (nodes_path l @ ''.bak'') \<noteq> Some Dir \<and>
    dumps (super_root l) = Return s"
  then have h1: "nodes_changed l" and h2: "files l (nodes_path l @ ''.bak'') \<noteq> Some Dir"
    and h3: "dumps (super_root l) = Return s"
    by simp_all
  note F = save_nodes_dirty [where dumps = dumps, OF h1 h2 h3]
  have n: "save_nodes dumps (snd (save_nodes dumps l)) = (Return (), snd (save_nodes dumps l))"
    using F(4) by (rule save_nodes_clean)
  have w: "filter is_write (syscalls (snd (save_nodes dumps l))) =
        filter is_write (syscalls l) @ [Write (nodes_path l) s]"
    using F(3) by simp
  show "fst (save_nodes dumps l) = Return ()" by (rule F(1))
  show "files (snd (save_nodes dumps l)) (nodes_path l) = Some (File s)"
    using F(2) by simp
  show "filter is_write (syscalls (snd (save_nodes dumps l))) =
        filter is_write (syscalls l) @ [Write (nodes_path l) s]"
    by (rule w)
  show "\<not> nodes_changed (snd (save_nodes dumps l))" by (rule F(4))
  show "save_nodes dumps (snd (save_nodes dumps l)) = (Return (), snd (save_nodes dumps l))"
    by (rule n)
  show "files (snd (save_nodes dumps (snd (save_nodes dumps l)))) =
        (files l)(nodes_path l @ ''.bak'' := files l (nodes_path l), nodes_path l \<mapsto> File s)"
    using n F(2) by simp
  show "syscalls (snd (save_nodes dumps (snd (save_nodes dumps l)))) =
        syscalls (snd (save_nodes dumps l))"
    using n by simp
  show "filter is_write (syscalls (snd (save_nodes dumps (snd (save_nodes dumps l))))) =
        filter is_write (syscalls l) @ [Write (nodes_path l) s]"
    using n w by simp
qed

theorem save_nodes_twice_writes_once_witness:
  "save_nodes ex_dumps (ex_link False 2 [''n'' \<mapsto> File ''a'']) =
     (Return (), ex_link False 2 [''n'' \<mapsto> File ''a'']) \<and>
   fst (save_nodes ex_dumps (ex_link True 2 [''n'' \<mapsto> File ''a''])) = Return () \<and>
   files (snd (save_nodes ex_dumps (ex_link True 2 [''n'' \<mapsto> File ''a'']))) ''n'' =
     Some (File ''xx'') \<and>
   save_nodes ex_dumps (snd (save_nodes ex_dumps (ex_link True 2 [''n'' \<mapsto> File ''a'']))) =
     (Return (), snd (save_nodes ex_dumps (ex_link True 2 [''n'' \<mapsto> File ''a'']))) \<and>
   files (snd (save_nodes ex_dumps (snd (save_nodes ex_dumps
       (ex_link True 2 [''n'' \<mapsto> File ''a'']))))) =
     [''n'' \<mapsto> File ''xx'', ''n.bak'' \<mapsto> File ''a''] \<and>
   filter is_write (syscalls (snd (save_nodes ex_dumps (snd (save_nodes ex_dumps
       (ex_link True 2 [''n'' \<mapsto> File ''a'']))))))  = [Write ''n'' ''xx'']"
proof -
  let ?c = "ex_link False 2 [''n'' \<mapsto> File ''a'']"
  let ?l = "ex_link True 2 [''n'' \<mapsto> File ''a'']"
  have c: "\<not> nodes_changed ?c" by (simp add: ex_link_def)
  have h: "nodes_changed ?l \<and> files ?l (nodes_path ?l @ ''.bak'') \<noteq> Some Dir \<and>
    ex_dumps (super_root ?l) = Return ''xx''"
    by (simp add: ex_link_def ex_dumps_def numeral_2_eq_2)
  have n: "nodes_path ?l = ''n''" "syscalls ?l = []" "files ?l = [''n'' \<mapsto> File ''a'']"
    by (simp_all add: ex_link_def)
  note C = save_nodes_twice_writes_once [where dumps = ex_dumps and l = ?c,
      THEN conjunct1, rule_format, OF c]
  note T = save_nodes_twice_writes_once [where dumps = ex_dumps and l = ?l and s = "''xx''",
      THEN conjunct2, rule_format, OF h]
  note T1 = T [THEN conjunct1]
  note T2 = T [THEN conjunct2, THEN conjunct1]
  note T5 = T [THEN conjunct2, THEN conjunct2, THEN conjunct2, THEN conjunct2, THEN conjunct1]
  note T6 = T [THEN conjunct2, THEN conjunct2, THEN conjunct2, THEN conjunct2, THEN conjunct2,
      THEN conjunct1]
  note T8 = T [THEN conjunct2, THEN conjunct2, THEN conjunct2, THEN conjunct2, THEN conjunct2,
      THEN conjunct2, THEN conjunct2]
  have t2: "files (snd (save_nodes ex_dumps ?l)) ''n'' = Some (File ''xx'')"
    using T2 by (simp add: n)
  have t6: "files (snd (save_nodes ex_dumps (snd (save_nodes ex_dumps ?l)))) =
     [''n'' \<mapsto> File ''xx'', ''n.bak'' \<mapsto> File ''a'']"
    using T6 by (simp add: n fun_eq_iff)
  have t8: "filter is_write (syscalls (snd (save_nodes ex_dumps (snd (save_nodes ex_dumps ?l))))) =
     [Write ''n'' ''xx'']"
    using T8 by (simp add: n)
  show ?thesis
    by (intro conjI) (rule C T1 t2 T5 t6 t8)+
qed

section \<open>Saving: a failing tick\<close>

lemma save_nodes_raises:
  "save_nodes dumps l = (Raise e, l') \<Longrightarrow> nodes_changed l' \<and> delayed l' = delayed l"
  by (auto simp add: save_nodes_def prog_defs io_defs
      split: result.splits option.splits entry.splits if_splits)

lemma save_timer_raises:
  "save_nodes dumps l = (Raise e, l') \<Longrightarrow> save_timer dumps l = (Raise e, l')"
  by (simp add: save_timer_def then_do_def)

lemma reactor_fire_after_failure:
  assumes "delayed l = (secs, SaveTimer) # rest"
    and "save_nodes dumps (l\<lparr>delayed := rest\<rparr>) = (Raise e, l')"
  shows "nodes_changed (reactor_fire dumps l)" and "delayed (reactor_fire dumps l) = rest"
  using assms save_nodes_raises [OF assms(2)] save_timer_raises [OF assms(2)]
  by (simp_all add: reactor_fire_def)

text \<open>
  C8. The claim: when a save fails part-way the flag stays set, the process goes on, and
  the next tick of \<^verbatim>\<open>save_timer\<close> retries. The code at a link whose backup path is a
  directory, and at one whose tree cannot be serialized: \<^verbatim>\<open>save_nodes\<close> raises, the
  flag stays set and the reactor goes on, but \<^verbatim>\<open>save_timer\<close> has not reached its
  \<^verbatim>\<open>reactor.callLater\<close>, so no tick is pending any more and nothing retries. A tick
  that succeeds does schedule the next one.
\<close>

theorem save_timer_failure_is_not_retried:
  "fst (save_timer ex_dumps (ex_link True 2 [''n.bak'' \<mapsto> Dir])) = Raise OSError \<and>
   nodes_changed (reactor_fire ex_dumps
     ((ex_link True 2 [''n.bak'' \<mapsto> Dir])\<lparr>delayed := [(5, SaveTimer)]\<rparr>)) \<and>
   delayed (reactor_fire ex_dumps
     ((ex_link True 2 [''n.bak'' \<mapsto> Dir])\<lparr>delayed := [(5, SaveTimer)]\<rparr>)) = [] \<and>
   nodes_changed (reactor_fire (\<lambda>t. Raise TypeError)
     ((ex_link True 2 [''n'' \<mapsto> File ''a''])\<lparr>delayed := [(5, SaveTimer)]\<rparr>)) \<and>
   delayed (reactor_fire (\<lambda>t. Raise TypeError)
     ((ex_link True 2 [''n'' \<mapsto> File ''a''])\<lparr>delayed := [(5, SaveTimer)]\<rparr>)) = [] \<and>
   delayed (reactor_fire ex_dumps
     ((ex_link True 2 [''n'' \<mapsto> File ''a''])\<lparr>delayed := [(5, SaveTimer)]\<rparr>)) = [(5, SaveTimer)]"
  by (simp add: reactor_fire_def save_timer_def callLater_def save_nodes_def prog_defs io_defs
      ex_link_def ex_dumps_def)

section \<open>Subscriptions and streams\<close>

lemmas dict_defs = subscriptions_get_def subscriptions_del_def streams_get_def streams_del_def
  add_subscriber_def remove_subscriber_def streams_append_def streams_remove_def debug_def

lemma subscribe_result:
  "subscribe n sid w =
     (Return (), w\<lparr>subscriptions := (subscriptions w)(sid \<mapsto> n),
                   heap := (heap w)(n := (heap w n)\<lparr>subscribers := insert sid (subscribers (heap w n))\<rparr>)\<rparr>)"
  by (simp add: subscribe_def dict_defs prog_defs)

lemma open_stream_result:
  "open_stream n rid w =
     (Return (), w\<lparr>streams := (streams w)(rid \<mapsto> n),
                   heap := (heap w)(n := (heap w n)\<lparr>node_streams := node_streams (heap w n) @ [rid]\<rparr>)\<rparr>)"
  by (simp add: open_stream_def dict_defs prog_defs)

lemma unsubscribe_known:
  "subscriptions w sid = Some n \<Longrightarrow>
   unsubscribe sid w =
     (Return (), w\<lparr>heap := (heap w)(n := (heap w n)\<lparr>subscribers := subscribers (heap w n) - {sid}\<rparr>),
                   subscriptions := (subscriptions w)(sid := None)\<rparr>)"
  by (simp add: unsubscribe_def dict_defs prog_defs)

lemma unsubscribe_unknown:
  "subscriptions w sid = None \<Longrightarrow>
   unsubscribe sid w = (Return (), w\<lparr>debug_log := debug_log w @ [(''DSlink'', Unknown_sid sid)]\<rparr>)"
  by (simp add: unsubscribe_def dict_defs prog_defs)

lemma close_stream_known:
  "streams w rid = Some n \<Longrightarrow> rid \<in> set (node_streams (heap w n)) \<Longrightarrow>
   close_stream rid w =
     (Return (), w\<lparr>heap := (heap w)(n := (heap w n)\<lparr>node_streams := remove1 rid (node_streams (heap w n))\<rparr>),
                   streams := (streams w)(rid := None)\<rparr>)"
  by (simp add: close_stream_def dict_defs prog_defs)

lemma close_stream_unknown:
  "streams w rid = None \<Longrightarrow>
   close_stream rid w = (Return (), w\<lparr>debug_log := debug_log w @ [(''DSLink'', Unknown_rid rid)]\<rparr>)"
  by (simp add: close_stream_def dict_defs prog_defs)

text \<open>
  C6, as stated, fails: for a node that has another subscriber, subscribing and then
  unsubscribing an id does not leave the node's subscriber set empty.
\<close>

theorem subscribe_unsubscribe_not_empty:
  "subscribers (heap (snd (unsubscribe 1 (snd (subscribe 0 1 (snd (subscribe 0 7 new_managers)))))) 0) = {7} \<and>
   subscribers (heap (snd (unsubscribe 1 (snd (subscribe 0 1 (snd (subscribe 0 7 new_managers)))))) 0) \<noteq> {}"
  by (simp add: subscribe_result unsubscribe_known new_managers_def)

text \<open>
  C6, amended. For every node and id, \<^verbatim>\<open>subscribe\<close> followed by \<^verbatim>\<open>unsubscribe\<close>
  of the same id raises nothing, removes the id from the dictionary and leaves the node's
  subscriber set as it was before less that id: empty when the node had no other
  subscriber. \<^verbatim>\<open>open_stream\<close> followed by \<^verbatim>\<open>close_stream\<close> likewise removes the id
  from the dictionary and takes one occurrence of the id out of the node's list, which
  is the list as it was when the id was not on it before. \<^verbatim>\<open>unsubscribe\<close> and
  \<^verbatim>\<open>close_stream\<close> of an id that is not a key raise nothing, make one call of
  \<^verbatim>\<open>debug\<close> and change nothing else.
\<close>

theorem open_then_close_restores:
  "fst (subscribe n sid w) = Return () \<and>
   fst (unsubscribe sid (snd (subscribe n sid w))) = Return () \<and>
   subscribers (heap (snd (unsubscribe sid (snd (subscribe n sid w)))) n) = subscribers (heap w n) - {sid} \<and>
   (subscribers (heap w n) \<subseteq> {sid} \<longrightarrow>
      subscribers (heap (snd (unsubscribe sid (snd (subscribe n sid w)))) n) = {}) \<and>
   subscriptions (snd (unsubscribe sid (snd (subscribe n sid w)))) sid = None \<and>
   fst (open_stream n rid w) = Return () \<and>
   fst (close_stream rid (snd (open_stream n rid w))) = Return () \<and>
   node_streams (heap (snd (close_stream rid (snd (open_stream n rid w)))) n) =
     remove1 rid (node_streams (heap w n) @ [rid]) \<and>
   (rid \<notin> set (node_streams (heap w n)) \<longrightarrow>
      node_streams (heap (snd (close_stream rid (snd (open_stream n rid w)))) n) = node_streams (heap w n)) \<and>
   streams (snd (close_stream rid (snd (open_stream n rid w)))) rid = None \<and>
   (subscriptions w sid = None \<longrightarrow>
      unsubscribe sid w = (Return (), w\<lparr>debug_log := debug_log w @ [(''DSlink'', Unknown_sid sid)]\<rparr>)) \<and>
   (streams w rid = None \<longrightarrow>
      close_stream rid w = (Return (), w\<lparr>debug_log := debug_log w @ [(''DSLink'', Unknown_rid rid)]\<rparr>))"
  by (auto simp add: subscribe_result unsubscribe_known open_stream_result close_stream_known
      unsubscribe_unknown close_stream_unknown remove1_append)

theorem open_then_close_restores_witness:
  "subscribers (heap (snd (unsubscribe 1 (snd (subscribe 0 1 new_managers)))) 0) = {} \<and>
   node_streams (heap (snd (close_stream 1 (snd (open_stream 0 1 new_managers)))) 0) = [] \<and>
   unsubscribe 1 new_managers = (Return (), new_managers\<lparr>debug_log := [(''DSlink'', Unknown_sid 1)]\<rparr>) \<and>
   close_stream 1 new_managers = (Return (), new_managers\<lparr>debug_log := [(''DSLink'', Unknown_rid 1)]\<rparr>)"
  using open_then_close_restores [of 0 1 new_managers 1]
  by (simp add: new_managers_def)

text \<open>
  C7. When an id is already a key of the dictionary, \<^verbatim>\<open>subscribe\<close>
  (\<^verbatim>\<open>open_stream\<close>) with that id and another node raises nothing, makes the dictionary
  map the id to the new node and registers the id on the new node, and leaves the node
  mapped before exactly as it was: its subscriber set (stream list) is not touched.
\<close>

theorem duplicate_open_overwrites:
  "(subscriptions w sid = Some n1 \<and> n2 \<noteq> n1 \<longrightarrow>
      fst (subscribe n2 sid w) = Return () \<and>
      subscriptions (snd (subscribe n2 sid w)) sid = Some n2 \<and>
      sid \<in> subscribers (heap (snd (subscribe n2 sid w)) n2) \<and>
      heap (snd (subscribe n2 sid w)) n1 = heap w n1) \<and>
   (streams w rid = Some n1 \<and> n2 \<noteq> n1 \<longrightarrow>
      fst (open_stream n2 rid w) = Return () \<and>
      streams (snd (open_stream n2 rid w)) rid = Some n2 \<and>
      rid \<in> set (node_streams (heap (snd (open_stream n2 rid w)) n2)) \<and>
      heap (snd (open_stream n2 rid w)) n1 = heap w n1)"
  by (simp add: subscribe_result open_stream_result)

theorem duplicate_open_overwrites_witness:
  "subscriptions (snd (subscribe 0 5 new_managers)) 5 = Some 0 \<and>
   subscriptions (snd (subscribe 1 5 (snd (subscribe 0 5 new_managers)))) 5 = Some 1 \<and>
   subscribers (heap (snd (subscribe 1 5 (snd (subscribe 0 5 new_managers)))) 0) = {5} \<and>
   streams (snd (open_stream 0 5 new_managers)) 5 = Some 0 \<and>
   streams (snd (open_stream 1 5 (snd (open_stream 0 5 new_managers)))) 5 = Some 1 \<and>
   node_streams (heap (snd (open_stream 1 5 (snd (open_stream 0 5 new_managers)))) 0) = [5]"
proof -
  have a: "subscriptions (snd (subscribe 0 5 new_managers)) 5 = Some 0"
    and b: "subscribers (heap (snd (subscribe 0 5 new_managers)) 0) = {5}"
    and c: "streams (snd (open_stream 0 5 new_managers)) 5 = Some 0"
    and d: "node_streams (heap (snd (open_stream 0 5 new_managers)) 0) = [5]"
    by (simp_all add: subscribe_result open_stream_result new_managers_def)
  have n: "(1::nat) \<noteq> 0" by simp
  from duplicate_open_overwrites [where w = "snd (subscribe 0 5 new_managers)" and sid = 5 and ?n1.0 = 0 and ?n2.0 = 1] a n
  have "subscriptions (snd (subscribe 1 5 (snd (subscribe 0 5 new_managers)))) 5 = Some 1 \<and>
        heap (snd (subscribe 1 5 (snd (subscribe 0 5 new_managers)))) 0 = heap (snd (subscribe 0 5 new_managers)) 0"
    by blast
  moreover
  from duplicate_open_overwrites [where w = "snd (open_stream 0 5 new_managers)" and rid = 5 and ?n1.0 = 0 and ?n2.0 = 1] c n
  have "streams (snd (open_stream 1 5 (snd (open_stream 0 5 new_managers)))) 5 = Some 1 \<and>
        heap (snd (open_stream 1 5 (snd (open_stream 0 5 new_managers)))) 0 = heap (snd (open_stream 0 5 new_managers)) 0"
    by blast
  ultimately show ?thesis using a b c d by simp
qed

text \<open>
  C9. For two distinct nodes and any id, after subscribing the first node, subscribing
  the second node with the same id and unsubscribing the id, the id is off the second
  node's set and out of the dictionary but still on the first node's set, where a
  further \<^verbatim>\<open>unsubscribe\<close> does not reach it; so the state does not satisfy
  \<open>subscribers_registered\<close>, which the initial state does.
\<close>

theorem duplicate_subscribe_leaves_stale_subscriber:
  assumes "n1 \<noteq> n2"
  shows "fst (subscribe n1 s w) = Return () \<and>
     fst (subscribe n2 s (snd (subscribe n1 s w))) = Return () \<and>
     fst (unsubscribe s (snd (subscribe n2 s (snd (subscribe n1 s w))))) = Return () \<and>
     s \<notin> subscribers (heap (snd (unsubscribe s (snd (subscribe n2 s (snd (subscribe n1 s w)))))) n2) \<and>
     subscriptions (snd (unsubscribe s (snd (subscribe n2 s (snd (subscribe n1 s w)))))) s = None \<and>
     s \<in> subscribers (heap (snd (unsubscribe s (snd (subscribe n2 s (snd (subscribe n1 s w)))))) n1) \<and>
     s \<in> subscribers (heap (snd (unsubscribe s (snd (unsubscribe s (snd (subscribe n2 s (snd (subscribe n1 s w)))))))) n1) \<and>
     \<not> subscribers_registered (snd (unsubscribe s (snd (subscribe n2 s (snd (subscribe n1 s w))))))"
proof -
  let ?w3 = "snd (unsubscribe s (snd (subscribe n2 s (snd (subscribe n1 s w)))))"
  have a: "s \<in> subscribers (heap ?w3 n1)" and b: "subscriptions ?w3 s = None"
    and c: "s \<notin> subscribers (heap ?w3 n2)"
    and d: "fst (unsubscribe s (snd (subscribe n2 s (snd (subscribe n1 s w))))) = Return ()"
    using assms by (simp_all add: subscribe_result unsubscribe_known)
  from a b have e: "\<not> subscribers_registered ?w3"
    by (auto simp add: subscribers_registered_def)
  from a b have f: "s \<in> subscribers (heap (snd (unsubscribe s ?w3)) n1)"
    by (simp add: unsubscribe_unknown)
  from a b c d e f show ?thesis by (simp add: subscribe_result)
qed

theorem duplicate_subscribe_leaves_stale_subscriber_witness:
  "subscribers_registered new_managers \<and>
   subscribers (heap (snd (unsubscribe 5 (snd (subscribe 1 5 (snd (subscribe 0 5 new_managers)))))) 0) = {5} \<and>
   subscriptions (snd (unsubscribe 5 (snd (subscribe 1 5 (snd (subscribe 0 5 new_managers)))))) = Map.empty \<and>
   \<not> subscribers_registered (snd (unsubscribe 5 (snd (subscribe 1 5 (snd (subscribe 0 5 new_managers))))))"
proof -
  have n: "(0::nat) \<noteq> 1" by simp
  have i: "subscribers_registered new_managers"
    by (simp add: subscribers_registered_def new_managers_def)
  have x: "subscribers (heap (snd (unsubscribe 5 (snd (subscribe 1 5 (snd (subscribe 0 5 new_managers)))))) 0) = {5}"
     "subscriptions (snd (unsubscribe 5 (snd (subscribe 1 5 (snd (subscribe 0 5 new_managers)))))) = Map.empty"
    by (simp_all add: subscribe_result unsubscribe_known new_managers_def)
  from duplicate_subscribe_leaves_stale_subscriber [OF n, of 5 new_managers] i x
  show ?thesis by simp
qed

section \<open>The connection loop: backoff\<close>

lemma sleeps_append: "sleeps (xs @ ys) = sleeps xs @ sleeps ys"
  by (induction xs rule: sleeps.induct) simp_all

lemma connect_loop_failed_step:
  assumes "failed a" and "delay c \<le> 60"
  shows "\<exists>c2. connect_loop (a # rest) c = connect_loop rest c2 \<and>
              delay c2 = min (delay c + 1) 60 \<and>
              sleeps (events c2) = sleeps (events c) @ (if raises a then [] else [min (delay c + 1) 60])"
  using assms
  by (cases a) (auto simp add: warn_and_sleep_def emit_def sleeps_append)

lemma connect_loop_failed_delay:
  "\<forall>a \<in> set script. failed a \<Longrightarrow> delay c \<le> 60 \<Longrightarrow>
   \<not> fst (connect_loop script c) \<and>
   delay (snd (connect_loop script c)) = min (delay c + length script) 60"
proof (induction script arbitrary: c)
  case Nil
  then show ?case by simp
next
  case (Cons a script)
  from Cons.prems have "failed a" by simp
  from connect_loop_failed_step [OF this Cons.prems(2), of script]
  obtain c2 where s: "connect_loop (a # script) c = connect_loop script c2"
    and d: "delay c2 = min (delay c + 1) 60"
    by blast
  from d have "delay c2 \<le> 60" by simp
  with Cons.IH [of c2] Cons.prems(1)
  have "\<not> fst (connect_loop script c2) \<and>
        delay (snd (connect_loop script c2)) = min (delay c2 + length script) 60"
    by simp
  with s d show ?case by (auto simp add: min_def)
qed

lemma connect_loop_false_sleeps:
  "\<forall>a \<in> set script. failed a \<and> \<not> raises a \<Longrightarrow> delay c \<le> 60 \<Longrightarrow>
   sleeps (events (snd (connect_loop script c))) =
     sleeps (events c) @ map (\<lambda>i. min (delay c + i) 60) [1..<Suc (length script)]"
proof (induction script arbitrary: c)
  case Nil
  then show ?case by simp
next
  case (Cons a script)
  from Cons.prems have a: "failed a" "\<not> raises a" by simp_all
  from connect_loop_failed_step [OF a(1) Cons.prems(2), of script] a(2)
  obtain c2 where s: "connect_loop (a # script) c = connect_loop script c2"
    and d: "delay c2 = min (delay c + 1) 60"
    and e: "sleeps (events c2) = sleeps (events c) @ [min (delay c + 1) 60]"
    by auto
  from d have "delay c2 \<le> 60" by simp
  with Cons.IH [of c2] Cons.prems(1)
  have i: "sleeps (events (snd (connect_loop script c2))) =
        sleeps (events c2) @ map (\<lambda>i. min (delay c2 + i) 60) [1..<Suc (length script)]"
    by simp
  have m: "map (\<lambda>i. min (delay c2 + i) 60) [1..<Suc (length script)] =
           map (\<lambda>i. min (delay c + i) 60) [2..<Suc (Suc (length script))]"
  proof -
    have "[2..<Suc (Suc (length script))] = map Suc [1..<Suc (length script)]"
      by (simp only: map_Suc_upt numeral_2_eq_2 One_nat_def)
    then have "map (\<lambda>i. min (delay c + i) 60) [2..<Suc (Suc (length script))] =
               map (\<lambda>i. min (delay c + Suc i) 60) [1..<Suc (length script)]"
      by (simp only: map_map comp_def)
    also have "\<dots> = map (\<lambda>i. min (delay c2 + i) 60) [1..<Suc (length script)]"
      using d by (intro map_cong) (auto simp add: min_def)
    finally show ?thesis by simp
  qed
  have u: "[1..<Suc (Suc (length script))] = 1 # [2..<Suc (Suc (length script))]"
    by (simp add: upt_conv_Cons numeral_2_eq_2 del: upt_Suc)
  from s i e m u show ?case by (simp del: upt_Suc)
qed

lemma connect_loop_raises_no_sleep:
  "\<forall>a \<in> set script. raises a \<Longrightarrow> 
   sleeps (events (snd (connect_loop script c))) = sleeps (events c)"
proof (induction script arbitrary: c)
  case Nil
  then show ?case by simp
next
  case (Cons a script)
  then show ?case
    by (cases a) (simp_all add: emit_def sleeps_append)
qed

lemma connect_resets_delay: "connect script c = Some c' \<Longrightarrow> delay c' = 0"
  by (auto simp add: connect_def emit_def split: prod.splits bool.splits)

text \<open>
  C2. The claim: after \<open>N\<close> failed attempts in a row the delay slept before the next
  attempt is \<open>min N 60\<close>. The delay field is indeed \<open>min N 60\<close> after \<open>N\<close> failures
  of any kind (\<open>connect_loop_failed_delay\<close>), it is slept after every attempt that
  returned failure (\<open>connect_loop_false_sleeps\<close>) and it is \<open>0\<close> after a connection
  (\<open>connect_resets_delay\<close>). The code at a first attempt whose handshake returns false
  and a second whose transport raises: the field is \<open>2\<close>, but the only delay slept is
  the \<open>1\<close> after the first attempt, and nothing is slept before the third attempt.
  Two attempts that both return false sleep \<open>1\<close> and \<open>2\<close>.
\<close>

theorem exception_path_skips_backoff:
  "sleeps (events (snd (connect_loop [Handshake_False, Transport_Raises ''reset''] new_connection))) = [1] \<and>
   delay (snd (connect_loop [Handshake_False, Transport_Raises ''reset''] new_connection)) = 2 \<and>
   sleeps (events (snd (connect_loop [Handshake_False, Transport_False] new_connection))) = [1, 2]"
  by (simp add: new_connection_def warn_and_sleep_def emit_def)

text \<open>
  C3. The claim: every failed attempt, the one that raises included, is logged and
  followed by a sleep of the current delay. The code at a single attempt whose handshake
  or transport raises: the exception is logged and the loop goes on to the next attempt
  with no sleep at all, while an attempt that returns false logs a warning and sleeps.
  No run of raising attempts, however long, ever sleeps (\<open>connect_loop_raises_no_sleep\<close>).
\<close>

theorem exception_path_does_not_sleep:
  "events (snd (connect_loop [Handshake_Raises ''refused''] new_connection)) =
     [Log ERROR (Exception_during_connect ''refused'')] \<and>
   events (snd (connect_loop [Transport_Raises ''refused''] new_connection)) =
     [Log ERROR (Exception_during_connect ''refused'')] \<and>
   events (snd (connect_loop [Handshake_False] new_connection)) =
     [Log WARNING (Failed_to_connect 1), Sleep 1] \<and>
   events (snd (connect_loop [Transport_False] new_connection)) =
     [Log WARNING (Failed_to_connect 1), Sleep 1]"
  by (simp add: new_connection_def warn_and_sleep_def emit_def)

end
